theory Spec2Isabelle
  imports Complex_Main
begin

section \<open>Data acquisition and caching of \<^verbatim>\<open>app.py\<close>\<close>

text \<open>
  The part of \<^verbatim>\<open>app.py\<close> that fetches and caches indicator data: the module
  globals \<^verbatim>\<open>start_date\<close>, \<^verbatim>\<open>end_date\<close>, \<^verbatim>\<open>indicadores\<close>, \<^verbatim>\<open>cache\<close>,
  \<^verbatim>\<open>CACHE_TIMEOUT\<close> and the functions \<^verbatim>\<open>fetch_yfinance_data\<close>, \<^verbatim>\<open>with_cache\<close>
  and \<^verbatim>\<open>baixar_dados\<close>. The libraries (\<^verbatim>\<open>yfinance\<close>, \<^verbatim>\<open>bcb.sgs\<close>, the system
  clock) are the environment: an \<open>env\<close> fixes what each of their calls answers, and
  every theorem holds for all environments. The mutable globals and the effects
  (clock readings, network requests, printed lines) are threaded through a \<open>world\<close>.
\<close>

subsection \<open>Values, frames, exceptions\<close>

text \<open>A \<^verbatim>\<open>codigo\<close> or a column label is a Python \<^verbatim>\<open>str\<close> or \<^verbatim>\<open>int\<close>.\<close>

datatype pyval = PyStr string | PyInt int

text \<open>
  A \<^verbatim>\<open>pandas.DataFrame\<close>: the column labels and the rows in their stored order,
  each row an index value (a calendar date, as a day number) with one cell per column.
  A missing cell (NaN) is \<open>None\<close>.
\<close>

record dataframe =
  columns :: "pyval list"
  rows :: "(int \<times> real option list) list"

text \<open>\<^verbatim>\<open>pd.DataFrame()\<close>\<close>

definition pd_DataFrame :: dataframe where
  "pd_DataFrame = \<lparr>columns = [], rows = []\<rparr>"

text \<open>\<^verbatim>\<open>df.empty\<close>: some axis has length 0.\<close>

definition empty :: "dataframe \<Rightarrow> bool" where
  "empty df \<longleftrightarrow> columns df = [] \<or> rows df = []"

text \<open>\<^verbatim>\<open>df.dropna()\<close>: a row with any missing cell is removed, the others stay in order.\<close>

definition dropna :: "dataframe \<Rightarrow> dataframe" where
  "dropna df = df\<lparr>rows := filter (\<lambda>r. None \<notin> set (snd r)) (rows df)\<rparr>"

text \<open>\<^verbatim>\<open>data[['Close']]\<close>: the columns labelled \<^verbatim>\<open>'Close'\<close>, in every row.\<close>

definition select_columns :: "pyval list \<Rightarrow> dataframe \<Rightarrow> dataframe" where
  "select_columns ls df =
     \<lparr>columns = filter (\<lambda>c. c \<in> set ls) (columns df),
      rows = map (\<lambda>r. (fst r, map snd (filter (\<lambda>p. fst p \<in> set ls) (zip (columns df) (snd r)))))
                 (rows df)\<rparr>"

text \<open>\<^verbatim>\<open>df.rename(columns={old: new})\<close>\<close>

definition rename_columns :: "pyval \<Rightarrow> pyval \<Rightarrow> dataframe \<Rightarrow> dataframe" where
  "rename_columns old new df = df\<lparr>columns := map (\<lambda>c. if c = old then new else c) (columns df)\<rparr>"

text \<open>
  What a library call may raise. \<^verbatim>\<open>except Exception\<close> catches the subclasses of
  \<^verbatim>\<open>Exception\<close>; \<^verbatim>\<open>KeyboardInterrupt\<close> and \<^verbatim>\<open>SystemExit\<close> derive from
  \<^verbatim>\<open>BaseException\<close> only and pass through it.
\<close>

datatype pyexn =
    KeyError string
  | ConnectionError string
  | TimeoutError string
  | ValueError string
  | KeyboardInterrupt
  | SystemExit

fun isinstance_Exception :: "pyexn \<Rightarrow> bool" where
  "isinstance_Exception KeyboardInterrupt = False"
| "isinstance_Exception SystemExit = False"
| "isinstance_Exception _ = True"

subsection \<open>Environment and world\<close>

text \<open>The requests sent to the two providers, with the arguments the code passes.\<close>

datatype request =
    YfDownload pyval string string
  | SgsGet string pyval string string

text \<open>The lines printed, by the \<^verbatim>\<open>print\<close> call that wrote them and its arguments.\<close>

datatype message =
    Aviso_nenhum_dado pyval
  | Aviso_dados_incompletos pyval
  | Erro_ao_buscar pyval pyexn
  | Erro_ao_carregar string pyexn

text \<open>
  The environment: \<open>clock e k\<close> is the epoch time (seconds) the system clock shows when
  it is read for the \<open>k\<close>-th time, \<open>utcoffset e\<close> the offset of local time in seconds,
  and \<open>yf_download e k\<close>, \<open>sgs_get e k\<close> what the provider answers to the request that
  is the \<open>k\<close>-th one sent: a frame, or an exception raised by the library.
\<close>

record env =
  clock :: "nat \<Rightarrow> real"
  utcoffset :: int
  yf_download :: "nat \<Rightarrow> pyval \<Rightarrow> string \<Rightarrow> string \<Rightarrow> pyexn + dataframe"
  sgs_get :: "nat \<Rightarrow> string \<Rightarrow> pyval \<Rightarrow> string \<Rightarrow> string \<Rightarrow> pyexn + dataframe"

text \<open>An entry of \<^verbatim>\<open>cache\<close>: \<^verbatim>\<open>{'data': ..., 'timestamp': ...}\<close>.\<close>

record cache_entry =
  data :: dataframe
  timestamp :: real

text \<open>
  The world: the globals \<^verbatim>\<open>cache\<close> and \<^verbatim>\<open>end_date\<close>, the number of clock readings
  made so far, the requests sent so far and the lines printed so far.
\<close>

record world =
  cache :: "string \<rightharpoonup> cache_entry"
  end_date :: string
  reads :: nat
  net :: "request list"
  out :: "message list"

text \<open>\<^verbatim>\<open>time.time()\<close>\<close>

definition time_time :: "env \<Rightarrow> world \<Rightarrow> real \<times> world" where
  "time_time e w = (clock e (reads w), w\<lparr>reads := Suc (reads w)\<rparr>)"

text \<open>\<^verbatim>\<open>datetime.now()\<close>: the local time, in whole seconds since 1970-01-01 00:00 local.\<close>

definition datetime_now :: "env \<Rightarrow> world \<Rightarrow> int \<times> world" where
  "datetime_now e w = (\<lfloor>clock e (reads w)\<rfloor> + utcoffset e, w\<lparr>reads := Suc (reads w)\<rparr>)"

text \<open>\<^verbatim>\<open>timedelta(days=1)\<close>, in seconds.\<close>

definition timedelta_days_1 :: int where
  "timedelta_days_1 = 86400"

subsection \<open>Calendar dates as text\<close>

text \<open>The civil date (year, month, day) of a day number counted from 1970-01-01.\<close>

definition civil_from_days :: "int \<Rightarrow> int \<times> int \<times> int" where
  "civil_from_days z0 =
     (let z = z0 + 719468;
          era = z div 146097;
          doe = z - era * 146097;
          yoe = (doe - doe div 1460 + doe div 36524 - doe div 146096) div 365;
          doy = doe - (365 * yoe + yoe div 4 - yoe div 100);
          mp = (5 * doy + 2) div 153;
          d = doy - (153 * mp + 2) div 5 + 1;
          m = (if mp < 10 then mp + 3 else mp - 9);
          y = yoe + era * 400 + (if m \<le> 2 then 1 else 0)
      in (y, m, d))"

definition digit :: "int \<Rightarrow> char" where
  "digit n = ''0123456789'' ! nat (n mod 10)"

text \<open>\<^verbatim>\<open>dt.strftime('%Y-%m-%d')\<close>, for the years 1000 to 9999.\<close>

definition strftime_Y_m_d :: "int \<Rightarrow> string" where
  "strftime_Y_m_d secs =
     (case civil_from_days (secs div 86400) of (y, m, d) \<Rightarrow>
        [digit (y div 1000), digit (y div 100), digit (y div 10), digit y] @ ''-'' @
        [digit (m div 10), digit m] @ ''-'' @
        [digit (d div 10), digit d])"

subsection \<open>Module globals\<close>

text \<open>\<^verbatim>\<open>start_date = '1994-07-01'\<close>\<close>

definition start_date :: string where
  "start_date = ''1994-07-01''"

text \<open>
  Loading the module: \<^verbatim>\<open>end_date = (datetime.now() + timedelta(days=1)).strftime('%Y-%m-%d')\<close>
  is evaluated once, here, and \<^verbatim>\<open>cache = {}\<close>.
\<close>

definition import_app :: "env \<Rightarrow> world" where
  "import_app e =
     (let w0 = \<lparr>cache = Map.empty, end_date = [], reads = 0, net = [], out = []\<rparr>;
          (now, w1) = datetime_now e w0
      in w1\<lparr>end_date := strftime_Y_m_d (now + timedelta_days_1)\<rparr>)"

record indicador =
  codigo :: pyval
  fonte :: string
  unidade :: string

text \<open>
  The dictionary \<^verbatim>\<open>indicadores\<close>. The letters outside ASCII are written as the bytes
  of their UTF-8 encoding.
\<close>

definition indicadores :: "string \<rightharpoonup> indicador" where
  "indicadores = map_of
     [(''Ibovespa'', \<lparr>codigo = PyStr ''^BVSP'', fonte = ''YF'', unidade = ''Pontos''\<rparr>),
      (''PIB Total'', \<lparr>codigo = PyInt 4380, fonte = ''BCB'',
          unidade = ''R$ milh'' @ [CHR 0xC3, CHR 0xB5] @ ''es''\<rparr>),
      (''Taxa Selic'', \<lparr>codigo = PyInt 4189, fonte = ''BCB'', unidade = ''% ao ano''\<rparr>),
      (''IPCA Mensal'', \<lparr>codigo = PyInt 433, fonte = ''BCB'', unidade = ''%''\<rparr>),
      (''C'' @ [CHR 0xC3, CHR 0xA2] @ ''mbio USD/BRL'',
          \<lparr>codigo = PyInt 3696, fonte = ''BCB'', unidade = ''R$''\<rparr>),
      (''Taxa de Desemprego'', \<lparr>codigo = PyInt 24369, fonte = ''BCB'', unidade = ''%''\<rparr>)]"

text \<open>\<^verbatim>\<open>CACHE_TIMEOUT = 3600\<close>\<close>

definition CACHE_TIMEOUT :: real where
  "CACHE_TIMEOUT = 3600"

subsection \<open>\<^verbatim>\<open>fetch_yfinance_data\<close>\<close>

text \<open>
  One request to the market data provider (\<^verbatim>\<open>auto_adjust=True, progress=False,
  threads=True, timeout=30\<close> are constants of the call). An \<^verbatim>\<open>Exception\<close> of the
  library, an empty answer and an answer without a \<^verbatim>\<open>'Close'\<close> column each print a
  line and give \<^verbatim>\<open>pd.DataFrame()\<close>.
\<close>

definition fetch_yfinance_data ::
  "env \<Rightarrow> pyval \<Rightarrow> string \<Rightarrow> string \<Rightarrow> world \<Rightarrow> (pyexn + dataframe) \<times> world" where
  "fetch_yfinance_data e ticker start_d end_d w =
     (let w1 = w\<lparr>net := net w @ [YfDownload ticker start_d end_d]\<rparr> in
      case yf_download e (length (net w)) ticker start_d end_d of
        Inr dat \<Rightarrow>
          if empty dat then
            (Inr pd_DataFrame, w1\<lparr>out := out w1 @ [Aviso_nenhum_dado ticker]\<rparr>)
          else if PyStr ''Close'' \<notin> set (columns dat) then
            (Inr pd_DataFrame, w1\<lparr>out := out w1 @ [Aviso_dados_incompletos ticker]\<rparr>)
          else
            (Inr (rename_columns (PyStr ''Close'') ticker (select_columns [PyStr ''Close''] dat)), w1)
      | Inl x \<Rightarrow>
          if isinstance_Exception x then
            (Inr pd_DataFrame, w1\<lparr>out := out w1 @ [Erro_ao_buscar ticker x]\<rparr>)
          else (Inl x, w1))"

subsection \<open>\<^verbatim>\<open>baixar_dados\<close> before decoration\<close>

text \<open>
  The function under \<^verbatim>\<open>@with_cache\<close>. \<^verbatim>\<open>indicadores[indicador_nome]\<close> raises
  \<^verbatim>\<open>KeyError\<close> for a name that is not a key; the source is \<^verbatim>\<open>'YF'\<close> or anything
  else, and \<^verbatim>\<open>sgs.get\<close> is called outside any \<^verbatim>\<open>try\<close> of its own.
\<close>

definition baixar_dados_func ::
  "env \<Rightarrow> string \<Rightarrow> world \<Rightarrow> (pyexn + dataframe) \<times> world" where
  "baixar_dados_func e indicador_nome w =
     (case indicadores indicador_nome of
        None \<Rightarrow> (Inl (KeyError indicador_nome), w)
      | Some indicador_info \<Rightarrow>
          if fonte indicador_info = ''YF'' then
            (case fetch_yfinance_data e (codigo indicador_info) start_date (end_date w) w of
               (Inr df, w1) \<Rightarrow> (Inr (dropna df), w1)
             | (Inl x, w1) \<Rightarrow> (Inl x, w1))
          else
            (let w1 = w\<lparr>net := net w @
                       [SgsGet indicador_nome (codigo indicador_info) start_date (end_date w)]\<rparr> in
             case sgs_get e (length (net w)) indicador_nome (codigo indicador_info)
                    start_date (end_date w) of
               Inr df \<Rightarrow> (Inr (dropna df), w1)
             | Inl x \<Rightarrow> (Inl x, w1)))"

subsection \<open>\<^verbatim>\<open>with_cache\<close>\<close>

text \<open>
  The freshness test of \<^verbatim>\<open>wrapper\<close>:
  \<^verbatim>\<open>time.time() - cache[indicador_nome]['timestamp'] < CACHE_TIMEOUT\<close>.
\<close>

definition is_fresh :: "cache_entry \<Rightarrow> real \<Rightarrow> bool" where
  "is_fresh ent now \<longleftrightarrow> now - timestamp ent < CACHE_TIMEOUT"

text \<open>
  The \<^verbatim>\<open>try\<close> block of \<^verbatim>\<open>wrapper\<close>: the result of \<^verbatim>\<open>func\<close> is stored with the time
  read after it returned; an \<^verbatim>\<open>Exception\<close> prints a line and gives
  \<^verbatim>\<open>pd.DataFrame()\<close>, with no store.
\<close>

definition wrapper_try ::
  "(env \<Rightarrow> string \<Rightarrow> world \<Rightarrow> (pyexn + dataframe) \<times> world) \<Rightarrow>
   env \<Rightarrow> string \<Rightarrow> world \<Rightarrow> (pyexn + dataframe) \<times> world" where
  "wrapper_try func e indicador_nome w =
     (case func e indicador_nome w of
        (Inr result, w1) \<Rightarrow>
          (let (t, w2) = time_time e w1 in
           (Inr result,
            w2\<lparr>cache := (cache w2)(indicador_nome \<mapsto> \<lparr>data = result, timestamp = t\<rparr>)\<rparr>))
      | (Inl x, w1) \<Rightarrow>
          if isinstance_Exception x then
            (Inr pd_DataFrame, w1\<lparr>out := out w1 @ [Erro_ao_carregar indicador_nome x]\<rparr>)
          else (Inl x, w1))"

text \<open>
  \<^verbatim>\<open>wrapper\<close>: the clock is read for the test only when the name is in the cache
  (\<^verbatim>\<open>and\<close> evaluates its right operand only then).
\<close>

definition with_cache ::
  "(env \<Rightarrow> string \<Rightarrow> world \<Rightarrow> (pyexn + dataframe) \<times> world) \<Rightarrow>
   env \<Rightarrow> string \<Rightarrow> world \<Rightarrow> (pyexn + dataframe) \<times> world" where
  "with_cache func e indicador_nome w =
     (case cache w indicador_nome of
        Some ent \<Rightarrow>
          (let (t, w1) = time_time e w in
           if is_fresh ent t then (Inr (data ent), w1)
           else wrapper_try func e indicador_nome w1)
      | None \<Rightarrow> wrapper_try func e indicador_nome w)"

text \<open>\<^verbatim>\<open>baixar_dados\<close> as the module exports it: the decorated function.\<close>

definition baixar_dados :: "env \<Rightarrow> string \<Rightarrow> world \<Rightarrow> (pyexn + dataframe) \<times> world" where
  "baixar_dados = with_cache baixar_dados_func"

subsection \<open>The calls of a session\<close>

text \<open>
  The callback \<^verbatim>\<open>atualizar_grafico\<close> calls \<^verbatim>\<open>baixar_dados(indicador_nome)\<close> once for
  each selection of the dropdown; a session is the list of the names selected, in order.
\<close>

fun session :: "env \<Rightarrow> string list \<Rightarrow> world \<Rightarrow> world" where
  "session e [] w = w"
| "session e (n # ns) w = session e ns (snd (baixar_dados e n w))"

subsection \<open>Notions used to state the properties\<close>

text \<open>The condition of the \<^verbatim>\<open>if\<close> of \<^verbatim>\<open>wrapper\<close>, at the clock reading it makes.\<close>

definition cache_hit :: "env \<Rightarrow> string \<Rightarrow> world \<Rightarrow> bool" where
  "cache_hit e n w =
     (case cache w n of None \<Rightarrow> False | Some ent \<Rightarrow> is_fresh ent (clock e (reads w)))"

text \<open>
  The number of the clock reading that \<^verbatim>\<open>wrapper\<close> stores as \<^verbatim>\<open>'timestamp'\<close> when
  it fetches: the test has used one reading exactly when the name was in the cache.
\<close>

definition store_reading :: "string \<Rightarrow> world \<Rightarrow> nat" where
  "store_reading n w = (case cache w n of None \<Rightarrow> reads w | Some ent \<Rightarrow> Suc (reads w))"

text \<open>The request that a fetch of indicator \<open>n\<close> sends, and what the provider answers.\<close>

definition request_of :: "string \<Rightarrow> indicador \<Rightarrow> world \<Rightarrow> request" where
  "request_of n i w =
     (if fonte i = ''YF'' then YfDownload (codigo i) start_date (end_date w)
      else SgsGet n (codigo i) start_date (end_date w))"

definition upstream :: "env \<Rightarrow> string \<Rightarrow> indicador \<Rightarrow> world \<Rightarrow> pyexn + dataframe" where
  "upstream e n i w =
     (if fonte i = ''YF'' then
        yf_download e (length (net w)) (codigo i) start_date (end_date w)
      else sgs_get e (length (net w)) n (codigo i) start_date (end_date w))"

fun request_start :: "request \<Rightarrow> string" where
  "request_start (YfDownload t s d) = s"
| "request_start (SgsGet n c s d) = s"

fun request_end :: "request \<Rightarrow> string" where
  "request_end (YfDownload t s d) = d"
| "request_end (SgsGet n c s d) = d"

text \<open>
  The cells of a raw row that are values of indicator \<open>i\<close>: for the market data source
  the cells under \<^verbatim>\<open>'Close'\<close>, which \<^verbatim>\<open>fetch_yfinance_data\<close> selects; for the
  central bank all cells of the row.
\<close>

definition value_cells :: "indicador \<Rightarrow> dataframe \<Rightarrow> real option list \<Rightarrow> real option list" where
  "value_cells i raw cells =
     (if fonte i = ''YF'' then
        map snd (filter (\<lambda>p. fst p = PyStr ''Close'') (zip (columns raw) cells))
      else cells)"

text \<open>The dates of the rows of a frame, in their stored order.\<close>

definition dates :: "dataframe \<Rightarrow> int list" where
  "dates df = map fst (rows df)"

text \<open>The rows of a frame that have a missing cell.\<close>

definition rows_with_missing :: "dataframe \<Rightarrow> (int \<times> real option list) list" where
  "rows_with_missing df = filter (\<lambda>r. None \<in> set (snd r)) (rows df)"

subsection \<open>Concrete frames, environments and worlds\<close>

text \<open>Five observations of one series, the third one missing; dates ascending.\<close>

definition selic5 :: dataframe where
  "selic5 = \<lparr>columns = [PyStr ''Taxa Selic''],
             rows = [(19723, [Some 11]), (19724, [Some 12]), (19725, [None]),
                     (19726, [Some 13]), (19727, [Some 14])]\<rparr>"

text \<open>The same five observations, delivered newest first.\<close>

definition selic5_desc :: dataframe where
  "selic5_desc = \<lparr>columns = [PyStr ''Taxa Selic''],
                  rows = [(19727, [Some 14]), (19726, [Some 13]), (19725, [None]),
                          (19724, [Some 12]), (19723, [Some 11])]\<rparr>"

text \<open>
  A market data answer with two columns: the second row has no closing value, the third
  no volume.
\<close>

definition bvsp2 :: dataframe where
  "bvsp2 = \<lparr>columns = [PyStr ''Close'', PyStr ''Volume''],
            rows = [(19723, [Some 132000, Some 5]), (19724, [None, Some 7]),
                    (19725, [Some 133000, None])]\<rparr>"

text \<open>
  The clock of the concrete environments: the module is loaded on 2024-01-01 at 12:00 UTC
  (epoch second 1704110400), and each later reading is ten seconds after the one before.
  Local time is UTC-3.
\<close>

definition clock10 :: "nat \<Rightarrow> real" where
  "clock10 k = 1704110400 + 10 * real k"

text \<open>Both providers answer with data.\<close>

definition env_ok :: env where
  "env_ok = \<lparr>clock = clock10, utcoffset = - 10800,
             yf_download = (\<lambda>k t s d. Inr bvsp2),
             sgs_get = (\<lambda>k n c s d. Inr selic5)\<rparr>"

text \<open>Both providers are unreachable: the libraries raise.\<close>

definition env_down :: env where
  "env_down = \<lparr>clock = clock10, utcoffset = - 10800,
               yf_download = (\<lambda>k t s d. Inl (ConnectionError ''unreachable'')),
               sgs_get = (\<lambda>k n c s d. Inl (ConnectionError ''unreachable''))\<rparr>"

text \<open>Both providers answer with an empty frame.\<close>

definition env_empty :: env where
  "env_empty = \<lparr>clock = clock10, utcoffset = - 10800,
                yf_download = (\<lambda>k t s d. Inr pd_DataFrame),
                sgs_get = (\<lambda>k n c s d. Inr pd_DataFrame)\<rparr>"

text \<open>The central bank delivers the observations newest first.\<close>

definition env_desc :: env where
  "env_desc = \<lparr>clock = clock10, utcoffset = - 10800,
               yf_download = (\<lambda>k t s d. Inr bvsp2),
               sgs_get = (\<lambda>k n c s d. Inr selic5_desc)\<rparr>"

text \<open>The central bank is unreachable for the first request and answers from the second on.\<close>

definition env_flaky :: env where
  "env_flaky = \<lparr>clock = clock10, utcoffset = - 10800,
                yf_download = (\<lambda>k t s d. Inr bvsp2),
                sgs_get = (\<lambda>k n c s d. if k = 0 then Inl (ConnectionError ''unreachable'')
                                       else Inr selic5)\<rparr>"

text \<open>
  The module is loaded on 2024-01-01 at 12:00 UTC and every call is made a week later,
  on 2024-01-08 at 12:00 UTC.
\<close>

definition env_week :: env where
  "env_week = \<lparr>clock = (\<lambda>k. if k = 0 then 1704110400 else 1704715200), utcoffset = - 10800,
               yf_download = (\<lambda>k t s d. Inr bvsp2),
               sgs_get = (\<lambda>k n c s d. Inr selic5)\<rparr>"

text \<open>
  A world whose cache holds one entry for \<^verbatim>\<open>'Taxa Selic'\<close>, fetched \<open>age\<close> seconds
  before the next reading of \<open>clock10\<close> (reading number 5).
\<close>

definition world_cached :: "real \<Rightarrow> world" where
  "world_cached age =
     \<lparr>cache = [''Taxa Selic'' \<mapsto> \<lparr>data = dropna selic5, timestamp = clock10 5 - age\<rparr>],
      end_date = ''2024-01-02'', reads = 5, net = [], out = []\<rparr>"

section \<open>How the functions act on the world\<close>

text \<open>
  Lemmas shared by the properties below: which parts of the world each function leaves
  alone, and what a call returns in each branch of \<^verbatim>\<open>wrapper\<close>.
\<close>

lemma fetch_yf_frame:
  "cache (snd (fetch_yfinance_data e t s d w)) = cache w"
  "reads (snd (fetch_yfinance_data e t s d w)) = reads w"
  "end_date (snd (fetch_yfinance_data e t s d w)) = end_date w"
  "net (snd (fetch_yfinance_data e t s d w)) = net w @ [YfDownload t s d]"
  by (simp_all add: fetch_yfinance_data_def Let_def split: sum.split)

lemma fetch_yf_frameD:
  assumes "fetch_yfinance_data e t s d w = (r, w1)"
  shows "cache w1 = cache w" and "reads w1 = reads w" and "end_date w1 = end_date w"
    and "net w1 = net w @ [YfDownload t s d]"
  using fetch_yf_frame [of e t s d w] assms by simp_all

lemma fetch_yf_raises:
  "fst (fetch_yfinance_data e t s d w) = Inl x \<Longrightarrow>
     yf_download e (length (net w)) t s d = Inl x \<and> \<not> isinstance_Exception x"
  by (auto simp: fetch_yfinance_data_def Let_def split: sum.splits if_splits)

lemma func_frame:
  "cache (snd (baixar_dados_func e n w)) = cache w"
  "reads (snd (baixar_dados_func e n w)) = reads w"
  "end_date (snd (baixar_dados_func e n w)) = end_date w"
  by (auto simp: baixar_dados_func_def Let_def
      split: option.split sum.split prod.split dest: fetch_yf_frameD)

lemma func_frameD:
  assumes "baixar_dados_func e n w = (r, w1)"
  shows "cache w1 = cache w" and "reads w1 = reads w" and "end_date w1 = end_date w"
  using func_frame [of e n w] assms by simp_all

lemma func_unknown:
  "indicadores n = None \<Longrightarrow> baixar_dados_func e n w = (Inl (KeyError n), w)"
  by (simp add: baixar_dados_func_def)

lemma func_net:
  "indicadores n = Some i \<Longrightarrow>
     net (snd (baixar_dados_func e n w)) = net w @ [request_of n i w]"
  by (auto simp: baixar_dados_func_def Let_def request_of_def
      split: sum.split prod.split dest: fetch_yf_frameD)

lemma func_raises:
  "indicadores n = Some i \<Longrightarrow> fst (baixar_dados_func e n w) = Inl x \<Longrightarrow>
     upstream e n i w = Inl x \<and> (fonte i = ''YF'' \<longrightarrow> \<not> isinstance_Exception x)"
  using fetch_yf_raises [of e "codigo i" start_date "end_date w" w x]
  by (auto simp: baixar_dados_func_def Let_def upstream_def
      split: sum.splits prod.splits if_splits)

lemma func_reads_irrelevant:
  "baixar_dados_func e n (w\<lparr>reads := k\<rparr>) =
     (fst (baixar_dados_func e n w), (snd (baixar_dados_func e n w))\<lparr>reads := k\<rparr>)"
  by (auto simp: baixar_dados_func_def fetch_yfinance_data_def Let_def
      split: option.split sum.split prod.split)

text \<open>What the fetch returns, by what the provider answers.\<close>

lemma func_upstream_raises:
  "indicadores n = Some i \<Longrightarrow> upstream e n i w = Inl x \<Longrightarrow>
     fst (baixar_dados_func e n w) =
       (if fonte i = ''YF'' \<and> isinstance_Exception x then Inr pd_DataFrame else Inl x)"
  by (auto simp: baixar_dados_func_def fetch_yfinance_data_def Let_def upstream_def
      dropna_def pd_DataFrame_def)

lemma empty_dropna: "empty raw \<Longrightarrow> empty (dropna raw)"
  by (auto simp: empty_def dropna_def)

lemma func_upstream_empty:
  "indicadores n = Some i \<Longrightarrow> upstream e n i w = Inr raw \<Longrightarrow> empty raw \<Longrightarrow>
     \<exists>df. empty df \<and> fst (baixar_dados_func e n w) = Inr df"
  by (auto simp: baixar_dados_func_def fetch_yfinance_data_def Let_def upstream_def
      empty_dropna dropna_def pd_DataFrame_def empty_def)

text \<open>The wrapper, by the outcome of its test.\<close>

lemma wrapper_hit:
  "cache w n = Some ent \<Longrightarrow> is_fresh ent (clock e (reads w)) \<Longrightarrow>
     baixar_dados e n w = (Inr (data ent), w\<lparr>reads := Suc (reads w)\<rparr>)"
  by (simp add: baixar_dados_def with_cache_def time_time_def)

lemma wrapper_miss:
  "\<not> cache_hit e n w \<Longrightarrow>
     baixar_dados e n w = wrapper_try baixar_dados_func e n (w\<lparr>reads := store_reading n w\<rparr>)"
  by (auto simp: baixar_dados_def with_cache_def cache_hit_def store_reading_def time_time_def
      split: option.splits)

lemma try_result:
  "wrapper_try baixar_dados_func e n w =
     (case fst (baixar_dados_func e n w) of
        Inr r \<Rightarrow> (Inr r, (snd (baixar_dados_func e n w))
                    \<lparr>reads := Suc (reads w),
                      cache := (cache w)(n \<mapsto> \<lparr>data = r, timestamp = clock e (reads w)\<rparr>)\<rparr>)
      | Inl x \<Rightarrow> if isinstance_Exception x
                 then (Inr pd_DataFrame, (snd (baixar_dados_func e n w))
                    \<lparr>out := out (snd (baixar_dados_func e n w)) @ [Erro_ao_carregar n x]\<rparr>)
                 else (Inl x, snd (baixar_dados_func e n w)))"
proof -
  obtain r w1 where eq: "baixar_dados_func e n w = (r, w1)"
    by (cases "baixar_dados_func e n w")
  have "cache w1 = cache w" and "reads w1 = reads w"
    using func_frameD [OF eq] by simp_all
  then show ?thesis
    by (cases r) (simp_all add: wrapper_try_def time_time_def eq)
qed

lemma miss_result:
  assumes "\<not> cache_hit e n w"
  shows "baixar_dados e n w =
     (case fst (baixar_dados_func e n w) of
        Inr r \<Rightarrow> (Inr r, (snd (baixar_dados_func e n w))
                    \<lparr>reads := Suc (store_reading n w),
                      cache := (cache w)(n \<mapsto>
                        \<lparr>data = r, timestamp = clock e (store_reading n w)\<rparr>)\<rparr>)
      | Inl x \<Rightarrow> if isinstance_Exception x
                 then (Inr pd_DataFrame, (snd (baixar_dados_func e n w))
                    \<lparr>reads := store_reading n w,
                      out := out (snd (baixar_dados_func e n w)) @ [Erro_ao_carregar n x]\<rparr>)
                 else (Inl x, (snd (baixar_dados_func e n w))\<lparr>reads := store_reading n w\<rparr>))"
  by (simp add: wrapper_miss [OF assms] try_result func_reads_irrelevant split: sum.split)

lemma call_end_date: "end_date (snd (baixar_dados e n w)) = end_date w"
proof (cases "cache_hit e n w")
  case True
  then show ?thesis
    by (auto simp: cache_hit_def wrapper_hit split: option.splits)
next
  case False
  then show ?thesis
    by (simp add: miss_result func_frame split: sum.split)
qed

lemma call_net:
  "net (snd (baixar_dados e n w)) =
     (if cache_hit e n w then net w
      else case indicadores n of None \<Rightarrow> net w | Some i \<Rightarrow> net w @ [request_of n i w])"
proof (cases "cache_hit e n w")
  case True
  then show ?thesis
    by (auto simp: cache_hit_def wrapper_hit split: option.splits)
next
  case False
  then show ?thesis
    by (auto simp: miss_result func_net func_unknown split: sum.split option.split)
qed

lemma call_cache:
  "cache (snd (baixar_dados e n w)) = cache w \<or>
     (\<exists>r t. indicadores n \<noteq> None \<and>
        cache (snd (baixar_dados e n w)) = (cache w)(n \<mapsto> \<lparr>data = r, timestamp = t\<rparr>))"
proof (cases "cache_hit e n w")
  case True
  then show ?thesis
    by (auto simp: cache_hit_def wrapper_hit split: option.splits)
next
  case False
  show ?thesis
  proof (cases "indicadores n")
    case None
    with False show ?thesis
      by (simp add: miss_result func_unknown)
  next
    case (Some i)
    with False show ?thesis
      by (auto simp: miss_result func_frame split: sum.split)
  qed
qed

lemma import_app_fields:
  "cache (import_app e) = Map.empty"
  "reads (import_app e) = 1"
  "net (import_app e) = []"
  "out (import_app e) = []"
  "end_date (import_app e) = strftime_Y_m_d (\<lfloor>clock e 0\<rfloor> + utcoffset e + 86400)"
  by (simp_all add: import_app_def datetime_now_def timedelta_days_1_def)

lemma tomorrow_of_2024_01_01: "strftime_Y_m_d 1704186000 = ''2024-01-02''"
  by code_simp

lemma tomorrow_of_2024_01_08: "strftime_Y_m_d 1704790800 = ''2024-01-09''"
  by code_simp

lemma registry_lookups:
  "indicadores ''Bitcoin'' = None"
  "indicadores ''Taxa Selic'' =
     Some \<lparr>codigo = PyInt 4189, fonte = ''BCB'', unidade = ''% ao ano''\<rparr>"
  "indicadores ''Ibovespa'' =
     Some \<lparr>codigo = PyStr ''^BVSP'', fonte = ''YF'', unidade = ''Pontos''\<rparr>"
  by (simp_all add: indicadores_def)

lemma call_cache_unknown:
  "indicadores n = None \<Longrightarrow> cache (snd (baixar_dados e n w)) = cache w"
  using call_cache [of e n w] by auto

lemma call_dom:
  "dom (cache (snd (baixar_dados e n w))) \<subseteq> dom (cache w) \<union> {m. m = n \<and> indicadores n \<noteq> None}"
  using call_cache [of e n w] by (elim disjE exE conjE) auto

lemma call_keeps_keys_registered:
  assumes "dom (cache w) \<subseteq> dom indicadores"
  shows "dom (cache (snd (baixar_dados e n w))) \<subseteq> dom indicadores"
proof -
  have "{m. m = n \<and> indicadores n \<noteq> None} \<subseteq> dom indicadores"
    by auto
  with assms call_dom [of e n w] show ?thesis
    by blast
qed


section \<open>Unknown names\<close>

text \<open>
  Claim C1, as stated, asks that a call with a name that is not in \<^verbatim>\<open>indicadores\<close>
  fails with an error reported to the caller. In the code the \<^verbatim>\<open>KeyError\<close> of the
  lookup is raised inside the \<^verbatim>\<open>try\<close> of \<^verbatim>\<open>wrapper\<close>, whose
  \<^verbatim>\<open>except Exception\<close> turns it into an empty frame: the call returns normally.
\<close>

theorem unknown_name_counterexample:
  "fst (baixar_dados env_ok ''Bitcoin'' (import_app env_ok)) = Inr pd_DataFrame"
  by (simp add: miss_result cache_hit_def import_app_fields func_unknown registry_lookups)

text \<open>
  Claim C1, amended: in every world whose cache holds registered names only, a call
  with a name that is not in the registry returns the empty frame to the caller, sends
  no request, reads no clock and leaves the cache as it was; the only effect is the
  printed line that reports the \<^verbatim>\<open>KeyError\<close>.
\<close>

theorem unknown_name_returns_empty:
  assumes "indicadores n = None" and "dom (cache w) \<subseteq> dom indicadores"
  shows "baixar_dados e n w =
           (Inr pd_DataFrame, w\<lparr>out := out w @ [Erro_ao_carregar n (KeyError n)]\<rparr>)"
proof -
  from assms have absent: "cache w n = None"
    by (auto simp: dom_def)
  then have "\<not> cache_hit e n w" and "store_reading n w = reads w"
    by (simp_all add: cache_hit_def store_reading_def)
  then show ?thesis
    by (simp add: miss_result func_unknown [OF assms(1)])
qed

theorem unknown_name_returns_empty_witness:
  "indicadores ''Bitcoin'' = None \<and>
   dom (cache (import_app env_down)) \<subseteq> dom indicadores \<and>
   baixar_dados env_down ''Bitcoin'' (import_app env_down) =
     (Inr pd_DataFrame,
      (import_app env_down)\<lparr>out := [Erro_ao_carregar ''Bitcoin'' (KeyError ''Bitcoin'')]\<rparr>)"
  using unknown_name_returns_empty [of "''Bitcoin''" "import_app env_down" env_down]
  by (simp add: registry_lookups import_app_fields)

section \<open>The keys of the cache\<close>

text \<open>
  Claim C10: every key of the cache is a name of the registry, and every call keeps it
  so; a call with a name that is not in the registry leaves the cache as it was.
\<close>

theorem cache_keys_registered:
  assumes "dom (cache w) \<subseteq> dom indicadores"
  shows "dom (cache (snd (baixar_dados e n w))) \<subseteq> dom indicadores \<and>
         (indicadores n = None \<longrightarrow> cache (snd (baixar_dados e n w)) = cache w)"
  using call_keeps_keys_registered [OF assms] call_cache_unknown by simp

theorem cache_keys_registered_witness:
  "dom (cache (import_app env_ok)) \<subseteq> dom indicadores \<and>
   dom (cache (snd (baixar_dados env_ok ''Bitcoin'' (import_app env_ok)))) \<subseteq> dom indicadores \<and>
   indicadores ''Bitcoin'' = None \<and>
   cache (snd (baixar_dados env_ok ''Bitcoin'' (import_app env_ok))) = cache (import_app env_ok)"
  using cache_keys_registered [of "import_app env_ok" env_ok "''Bitcoin''"]
  by (simp add: import_app_fields registry_lookups)

text \<open>From the empty cache of a freshly loaded module, the invariant holds after any session.\<close>

lemma session_cache_keys:
  "dom (cache w) \<subseteq> dom indicadores \<Longrightarrow> dom (cache (session e ns w)) \<subseteq> dom indicadores"
proof (induction ns arbitrary: w)
  case Nil
  then show ?case by simp
next
  case (Cons n ns)
  have "dom (cache (snd (baixar_dados e n w))) \<subseteq> dom indicadores"
    using Cons.prems by (rule call_keeps_keys_registered)
  then show ?case
    using Cons.IH by simp
qed

lemma session_from_import_cache_keys:
  "dom (cache (session e ns (import_app e))) \<subseteq> dom indicadores"
  by (rule session_cache_keys) (simp add: import_app_fields)

section \<open>Freshness and the cache\<close>

lemma world_cached_fields:
  "cache (world_cached age) ''Taxa Selic'' =
     Some \<lparr>data = dropna selic5, timestamp = clock10 5 - age\<rparr>"
  "reads (world_cached age) = 5"
  "net (world_cached age) = []"
  "end_date (world_cached age) = ''2024-01-02''"
  by (simp_all add: world_cached_def)

lemma env_clocks:
  "clock env_ok = clock10" "clock env_down = clock10" "clock env_empty = clock10"
  "clock env_desc = clock10"
  by (simp_all add: env_ok_def env_down_def env_empty_def env_desc_def)

text \<open>
  Claim C3: an entry is fresh exactly when the clock reading minus its timestamp is less
  than 3600. For a cached indicator, a call that reads the clock at
  \<open>timestamp + 3600 - 1\<close> returns the cached frame and changes nothing but the count
  of clock readings (no request is sent); a call that reads the clock at
  \<open>timestamp + 3600 + 1\<close> sends exactly one request, the one of this indicator.
\<close>

theorem ttl_boundary:
  assumes "cache w n = Some ent" and "indicadores n = Some i"
  shows "(is_fresh ent now \<longleftrightarrow> now - timestamp ent < 3600) \<and>
         (clock e (reads w) = timestamp ent + CACHE_TIMEOUT - 1 \<longrightarrow>
            baixar_dados e n w = (Inr (data ent), w\<lparr>reads := Suc (reads w)\<rparr>)) \<and>
         (clock e (reads w) = timestamp ent + CACHE_TIMEOUT + 1 \<longrightarrow>
            net (snd (baixar_dados e n w)) = net w @ [request_of n i w])"
proof (intro conjI impI)
  show "is_fresh ent now \<longleftrightarrow> now - timestamp ent < 3600"
    by (simp add: is_fresh_def CACHE_TIMEOUT_def)
next
  assume "clock e (reads w) = timestamp ent + CACHE_TIMEOUT - 1"
  then have "is_fresh ent (clock e (reads w))"
    by (simp add: is_fresh_def)
  with assms(1) show "baixar_dados e n w = (Inr (data ent), w\<lparr>reads := Suc (reads w)\<rparr>)"
    by (rule wrapper_hit)
next
  assume "clock e (reads w) = timestamp ent + CACHE_TIMEOUT + 1"
  then have "\<not> is_fresh ent (clock e (reads w))"
    by (simp add: is_fresh_def)
  with assms(1) have "\<not> cache_hit e n w"
    by (simp add: cache_hit_def)
  with assms(2) show "net (snd (baixar_dados e n w)) = net w @ [request_of n i w]"
    by (simp add: call_net)
qed

theorem ttl_boundary_witness:
  "cache (world_cached 3599) ''Taxa Selic'' =
     Some \<lparr>data = dropna selic5, timestamp = clock10 5 - 3599\<rparr> \<and>
   cache (world_cached 3601) ''Taxa Selic'' =
     Some \<lparr>data = dropna selic5, timestamp = clock10 5 - 3601\<rparr> \<and>
   indicadores ''Taxa Selic'' =
     Some \<lparr>codigo = PyInt 4189, fonte = ''BCB'', unidade = ''% ao ano''\<rparr> \<and>
   is_fresh \<lparr>data = dropna selic5, timestamp = clock10 5 - 3599\<rparr> (clock10 5) \<and>
   \<not> is_fresh \<lparr>data = dropna selic5, timestamp = clock10 5 - 3601\<rparr> (clock10 5) \<and>
   clock env_ok (reads (world_cached 3599)) = (clock10 5 - 3599) + CACHE_TIMEOUT - 1 \<and>
   baixar_dados env_ok ''Taxa Selic'' (world_cached 3599) =
     (Inr (dropna selic5), (world_cached 3599)\<lparr>reads := 6\<rparr>) \<and>
   clock env_ok (reads (world_cached 3601)) = (clock10 5 - 3601) + CACHE_TIMEOUT + 1 \<and>
   net (snd (baixar_dados env_ok ''Taxa Selic'' (world_cached 3601))) =
     [SgsGet ''Taxa Selic'' (PyInt 4189) ''1994-07-01'' ''2024-01-02'']"
  using ttl_boundary [of "world_cached 3599" "''Taxa Selic''"
      "\<lparr>data = dropna selic5, timestamp = clock10 5 - 3599\<rparr>"
      "\<lparr>codigo = PyInt 4189, fonte = ''BCB'', unidade = ''% ao ano''\<rparr>" "clock10 5" env_ok]
    ttl_boundary [of "world_cached 3601" "''Taxa Selic''"
      "\<lparr>data = dropna selic5, timestamp = clock10 5 - 3601\<rparr>"
      "\<lparr>codigo = PyInt 4189, fonte = ''BCB'', unidade = ''% ao ano''\<rparr>" "clock10 5" env_ok]
  by (simp add: world_cached_fields registry_lookups env_clocks CACHE_TIMEOUT_def
      request_of_def start_date_def)

text \<open>
  Claim C4, as stated, asks that the second of two successive calls for a registered
  name sends no request and returns what the first returned. When the central bank is
  unreachable for the first call, \<^verbatim>\<open>sgs.get\<close> raises, the \<^verbatim>\<open>except\<close> clause of
  \<^verbatim>\<open>wrapper\<close> returns the empty frame and stores nothing; the second call, made right
  after it, finds no entry, sends a request of its own and returns the four observations.
\<close>

theorem second_call_refetches_counterexample:
  "fst (baixar_dados env_flaky ''Taxa Selic'' (import_app env_flaky)) = Inr pd_DataFrame \<and>
   net (snd (baixar_dados env_flaky ''Taxa Selic'' (import_app env_flaky))) =
     [SgsGet ''Taxa Selic'' (PyInt 4189) ''1994-07-01'' ''2024-01-02''] \<and>
   fst (baixar_dados env_flaky ''Taxa Selic''
         (snd (baixar_dados env_flaky ''Taxa Selic'' (import_app env_flaky)))) =
     Inr \<lparr>columns = [PyStr ''Taxa Selic''],
          rows = [(19723, [Some 11]), (19724, [Some 12]), (19726, [Some 13]), (19727, [Some 14])]\<rparr> \<and>
   net (snd (baixar_dados env_flaky ''Taxa Selic''
         (snd (baixar_dados env_flaky ''Taxa Selic'' (import_app env_flaky))))) =
     [SgsGet ''Taxa Selic'' (PyInt 4189) ''1994-07-01'' ''2024-01-02'',
      SgsGet ''Taxa Selic'' (PyInt 4189) ''1994-07-01'' ''2024-01-02'']"
proof -
  let ?w = "import_app env_flaky"
  let ?w1 = "snd (baixar_dados env_flaky ''Taxa Selic'' ?w)"
  let ?req = "SgsGet ''Taxa Selic'' (PyInt 4189) ''1994-07-01'' ''2024-01-02''"
  have ed: "end_date ?w = ''2024-01-02''"
    by (simp add: import_app_fields env_flaky_def clock10_def tomorrow_of_2024_01_01)
  have miss: "\<not> cache_hit env_flaky ''Taxa Selic'' ?w"
    by (simp add: cache_hit_def import_app_fields)
  have f1: "fst (baixar_dados_func env_flaky ''Taxa Selic'' ?w) =
      Inl (ConnectionError ''unreachable'')"
    by (simp add: baixar_dados_func_def registry_lookups env_flaky_def import_app_fields(3))
  have r1: "fst (baixar_dados env_flaky ''Taxa Selic'' ?w) = Inr pd_DataFrame"
    by (simp add: miss_result [OF miss] f1)
  have c1: "cache ?w1 = Map.empty"
    by (simp add: miss_result [OF miss] f1 func_frame import_app_fields(1))
  have n1: "net ?w1 = [?req]"
    by (simp add: call_net miss registry_lookups request_of_def start_date_def
        import_app_fields(3) ed)
  have e1: "end_date ?w1 = ''2024-01-02''"
    by (simp add: call_end_date ed)
  have miss2: "\<not> cache_hit env_flaky ''Taxa Selic'' ?w1"
    by (simp add: cache_hit_def c1)
  have sg: "sgs_get env_flaky (Suc 0) = (\<lambda>n c s d. Inr selic5)"
    by (simp add: env_flaky_def)
  have f2: "fst (baixar_dados_func env_flaky ''Taxa Selic'' ?w1) = Inr (dropna selic5)"
    by (simp add: baixar_dados_func_def registry_lookups n1 sg)
  have r2: "fst (baixar_dados env_flaky ''Taxa Selic'' ?w1) = Inr (dropna selic5)"
    by (simp add: miss_result [OF miss2] f2)
  have n2: "net (snd (baixar_dados env_flaky ''Taxa Selic'' ?w1)) = [?req, ?req]"
    by (simp add: call_net [of env_flaky "''Taxa Selic''" ?w1] miss2 registry_lookups
        request_of_def start_date_def n1 e1)
  from r1 n1 r2 n2 show ?thesis
    by (simp add: dropna_def selic5_def)
qed

text \<open>
  Claim C4, amended: when the first of two successive calls for a name is served from
  the cache, or its fetch returns without raising, the cache holds after it an entry
  for the name with the frame that the call returned; if the second call reads the
  clock while that entry is fresh, it returns the value the first one returned and
  changes nothing but the count of clock readings: no request is sent.
\<close>

theorem second_call_repeats_first:
  assumes first: "baixar_dados e n w = (r1, w1)"
    and stored: "cache_hit e n w \<or> (\<exists>r. fst (baixar_dados_func e n w) = Inr r)"
  shows "\<exists>ent. cache w1 n = Some ent \<and> r1 = Inr (data ent) \<and>
           (is_fresh ent (clock e (reads w1)) \<longrightarrow>
              baixar_dados e n w1 = (r1, w1\<lparr>reads := Suc (reads w1)\<rparr>))"
proof -
  have "\<exists>ent. cache w1 n = Some ent \<and> r1 = Inr (data ent)"
  proof (cases "cache_hit e n w")
    case True
    then obtain ent0 where e0: "cache w n = Some ent0" "is_fresh ent0 (clock e (reads w))"
      by (auto simp: cache_hit_def split: option.splits)
    from wrapper_hit [OF e0] first show ?thesis
      by (auto simp: e0)
  next
    case False
    with stored obtain r where "fst (baixar_dados_func e n w) = Inr r"
      by blast
    with False first show ?thesis
      by (auto simp: miss_result)
  qed
  then obtain ent where ent: "cache w1 n = Some ent" "r1 = Inr (data ent)"
    by blast
  have "baixar_dados e n w1 = (r1, w1\<lparr>reads := Suc (reads w1)\<rparr>)"
    if "is_fresh ent (clock e (reads w1))"
    using wrapper_hit [OF ent(1) that] ent(2) by simp
  with ent show ?thesis
    by blast
qed

theorem second_call_repeats_first_witness:
  "baixar_dados env_ok ''Taxa Selic'' (import_app env_ok) =
     (Inr (dropna selic5),
      (snd (baixar_dados env_ok ''Taxa Selic'' (import_app env_ok)))) \<and>
   fst (baixar_dados_func env_ok ''Taxa Selic'' (import_app env_ok)) = Inr (dropna selic5) \<and>
   cache (snd (baixar_dados env_ok ''Taxa Selic'' (import_app env_ok))) ''Taxa Selic'' =
     Some \<lparr>data = dropna selic5, timestamp = clock10 1\<rparr> \<and>
   is_fresh \<lparr>data = dropna selic5, timestamp = clock10 1\<rparr>
     (clock env_ok (reads (snd (baixar_dados env_ok ''Taxa Selic'' (import_app env_ok))))) \<and>
   baixar_dados env_ok ''Taxa Selic'' (snd (baixar_dados env_ok ''Taxa Selic'' (import_app env_ok))) =
     (Inr (dropna selic5),
      (snd (baixar_dados env_ok ''Taxa Selic'' (import_app env_ok)))\<lparr>reads := 3\<rparr>)"
proof -
  let ?w1 = "snd (baixar_dados env_ok ''Taxa Selic'' (import_app env_ok))"
  have miss: "\<not> cache_hit env_ok ''Taxa Selic'' (import_app env_ok)"
    by (simp add: cache_hit_def import_app_fields)
  have sr: "store_reading ''Taxa Selic'' (import_app env_ok) = 1"
    by (simp add: store_reading_def import_app_fields)
  have fn: "fst (baixar_dados_func env_ok ''Taxa Selic'' (import_app env_ok)) = Inr (dropna selic5)"
    by (simp add: baixar_dados_func_def registry_lookups env_ok_def)
  have first: "baixar_dados env_ok ''Taxa Selic'' (import_app env_ok) = (Inr (dropna selic5), ?w1)"
    by (simp add: miss_result [OF miss] fn)
  have entry: "cache ?w1 ''Taxa Selic'' = Some \<lparr>data = dropna selic5, timestamp = clock10 1\<rparr>"
    by (simp add: miss_result [OF miss] fn sr env_clocks)
  have rd: "reads ?w1 = 2"
    by (simp add: miss_result [OF miss] fn sr)
  have fresh: "is_fresh \<lparr>data = dropna selic5, timestamp = clock10 1\<rparr> (clock env_ok (reads ?w1))"
    by (simp add: rd env_clocks is_fresh_def clock10_def CACHE_TIMEOUT_def)
  have stored: "cache_hit env_ok ''Taxa Selic'' (import_app env_ok) \<or>
      (\<exists>r. fst (baixar_dados_func env_ok ''Taxa Selic'' (import_app env_ok)) = Inr r)"
    using fn by simp
  from second_call_repeats_first [OF first stored] entry fresh
  have "baixar_dados env_ok ''Taxa Selic'' ?w1 =
      (Inr (dropna selic5), ?w1\<lparr>reads := Suc (reads ?w1)\<rparr>)"
    by auto
  with first fn entry fresh rd show ?thesis
    by simp
qed

section \<open>Faults of the providers\<close>

text \<open>What the providers of the concrete environments answer, and the world after loading.\<close>

lemma env_down_upstream:
  "upstream env_down ''Taxa Selic''
     \<lparr>codigo = PyInt 4189, fonte = ''BCB'', unidade = ''% ao ano''\<rparr> w =
   Inl (ConnectionError ''unreachable'')"
  "upstream env_down ''Ibovespa''
     \<lparr>codigo = PyStr ''^BVSP'', fonte = ''YF'', unidade = ''Pontos''\<rparr> w =
   Inl (ConnectionError ''unreachable'')"
  by (simp_all add: upstream_def env_down_def)

lemma env_empty_upstream:
  "upstream env_empty ''Ibovespa''
     \<lparr>codigo = PyStr ''^BVSP'', fonte = ''YF'', unidade = ''Pontos''\<rparr> w = Inr pd_DataFrame"
  by (simp add: upstream_def env_empty_def)

lemma import_miss: "\<not> cache_hit e n (import_app e)"
  by (simp add: cache_hit_def import_app_fields)

lemma import_store_reading: "store_reading n (import_app e) = 1"
  by (simp add: store_reading_def import_app_fields)

text \<open>
  Claim C5: for every registered name, when what the provider's library raises is an
  \<^verbatim>\<open>Exception\<close> (a network error, a timeout, an answer it cannot parse), the call
  does not raise: it returns a frame. When the fetch is reached and the library raises,
  the frame returned is the empty one; so it is for a market data answer that is empty
  or has no \<^verbatim>\<open>'Close'\<close> column.
\<close>

theorem transport_faults_never_raise:
  assumes "indicadores n = Some i"
    and "\<forall>x. upstream e n i w = Inl x \<longrightarrow> isinstance_Exception x"
  shows "(\<exists>df. fst (baixar_dados e n w) = Inr df) \<and>
         (\<not> cache_hit e n w \<longrightarrow> (\<exists>x. upstream e n i w = Inl x) \<longrightarrow>
            fst (baixar_dados e n w) = Inr pd_DataFrame) \<and>
         (\<not> cache_hit e n w \<longrightarrow> fonte i = ''YF'' \<longrightarrow>
            (\<exists>raw. upstream e n i w = Inr raw \<and>
               (empty raw \<or> PyStr ''Close'' \<notin> set (columns raw))) \<longrightarrow>
            fst (baixar_dados e n w) = Inr pd_DataFrame)"
proof (intro conjI impI)
  show "\<exists>df. fst (baixar_dados e n w) = Inr df"
  proof (cases "cache_hit e n w")
    case True
    then show ?thesis
      by (auto simp: cache_hit_def wrapper_hit split: option.splits)
  next
    case False
    show ?thesis
    proof (cases "fst (baixar_dados_func e n w)")
      case (Inr r)
      with False show ?thesis
        by (simp add: miss_result)
    next
      case (Inl x)
      with func_raises [OF assms(1)] assms(2) have "isinstance_Exception x"
        by blast
      with False Inl show ?thesis
        by (simp add: miss_result)
    qed
  qed
next
  assume miss: "\<not> cache_hit e n w" and "\<exists>x. upstream e n i w = Inl x"
  then obtain x where x: "upstream e n i w = Inl x"
    by blast
  with assms(2) have exn: "isinstance_Exception x"
    by blast
  from func_upstream_raises [OF assms(1) x] exn miss
  show "fst (baixar_dados e n w) = Inr pd_DataFrame"
    by (simp add: miss_result split: if_splits)
next
  assume miss: "\<not> cache_hit e n w" and yf: "fonte i = ''YF''"
    and "\<exists>raw. upstream e n i w = Inr raw \<and> (empty raw \<or> PyStr ''Close'' \<notin> set (columns raw))"
  then obtain raw where raw: "upstream e n i w = Inr raw"
    and bad: "empty raw \<or> PyStr ''Close'' \<notin> set (columns raw)"
    by blast
  from assms(1) yf raw bad have "fst (baixar_dados_func e n w) = Inr pd_DataFrame"
    by (auto simp: baixar_dados_func_def fetch_yfinance_data_def upstream_def Let_def
        dropna_def pd_DataFrame_def)
  with miss show "fst (baixar_dados e n w) = Inr pd_DataFrame"
    by (simp add: miss_result)
qed

theorem transport_faults_never_raise_witness:
  "indicadores ''Taxa Selic'' =
     Some \<lparr>codigo = PyInt 4189, fonte = ''BCB'', unidade = ''% ao ano''\<rparr> \<and>
   upstream env_down ''Taxa Selic''
     \<lparr>codigo = PyInt 4189, fonte = ''BCB'', unidade = ''% ao ano''\<rparr> (import_app env_down) =
     Inl (ConnectionError ''unreachable'') \<and>
   isinstance_Exception (ConnectionError ''unreachable'') \<and>
   \<not> cache_hit env_down ''Taxa Selic'' (import_app env_down) \<and>
   fst (baixar_dados env_down ''Taxa Selic'' (import_app env_down)) = Inr pd_DataFrame \<and>
   indicadores ''Ibovespa'' =
     Some \<lparr>codigo = PyStr ''^BVSP'', fonte = ''YF'', unidade = ''Pontos''\<rparr> \<and>
   upstream env_empty ''Ibovespa''
     \<lparr>codigo = PyStr ''^BVSP'', fonte = ''YF'', unidade = ''Pontos''\<rparr> (import_app env_empty) =
     Inr pd_DataFrame \<and>
   empty pd_DataFrame \<and>
   \<not> cache_hit env_empty ''Ibovespa'' (import_app env_empty) \<and>
   fst (baixar_dados env_empty ''Ibovespa'' (import_app env_empty)) = Inr pd_DataFrame"
  using transport_faults_never_raise [of "''Taxa Selic''"
      "\<lparr>codigo = PyInt 4189, fonte = ''BCB'', unidade = ''% ao ano''\<rparr>"
      env_down "import_app env_down"]
    transport_faults_never_raise [of "''Ibovespa''"
      "\<lparr>codigo = PyStr ''^BVSP'', fonte = ''YF'', unidade = ''Pontos''\<rparr>"
      env_empty "import_app env_empty"]
  by (simp add: registry_lookups env_down_upstream env_empty_upstream import_miss
      empty_def pd_DataFrame_def)

section \<open>An exception of the fetch and the cache\<close>

text \<open>
  Claim C2, as stated, asks that after an exception of the fetch the cache holds an
  entry for the name. With the central bank unreachable, \<^verbatim>\<open>sgs.get\<close> raises, the
  \<^verbatim>\<open>except\<close> clause of \<^verbatim>\<open>wrapper\<close> returns the empty frame, and the cache still has
  no entry for \<^verbatim>\<open>'Taxa Selic'\<close>.
\<close>

theorem exception_no_entry_counterexample:
  "fst (baixar_dados env_down ''Taxa Selic'' (import_app env_down)) = Inr pd_DataFrame \<and>
   cache (snd (baixar_dados env_down ''Taxa Selic'' (import_app env_down))) ''Taxa Selic'' = None"
proof -
  have "fst (baixar_dados_func env_down ''Taxa Selic'' (import_app env_down)) =
      Inl (ConnectionError ''unreachable'')"
    using func_upstream_raises [OF registry_lookups(2) env_down_upstream(1),
        of "import_app env_down"]
    by simp
  then show ?thesis
    by (simp add: miss_result [OF import_miss] func_frame import_app_fields)
qed

text \<open>
  Claim C2, amended: for every registered name, when the fetch is reached (no fresh
  entry) and the provider's library raises an \<^verbatim>\<open>Exception\<close>, the call returns the
  empty frame to the caller. An entry with the empty frame and the time read after the
  fetch is stored when the exception comes from the market data download, which
  \<^verbatim>\<open>fetch_yfinance_data\<close> catches itself; when it comes from \<^verbatim>\<open>sgs.get\<close> it reaches
  the \<^verbatim>\<open>except\<close> clause of \<^verbatim>\<open>wrapper\<close>, and the cache is left as it was.
\<close>

theorem exception_caught_store_by_source:
  assumes "indicadores n = Some i" and "\<not> cache_hit e n w"
    and "upstream e n i w = Inl x" and "isinstance_Exception x"
  shows "fst (baixar_dados e n w) = Inr pd_DataFrame \<and>
         cache (snd (baixar_dados e n w)) =
           (if fonte i = ''YF''
            then (cache w)(n \<mapsto> \<lparr>data = pd_DataFrame, timestamp = clock e (store_reading n w)\<rparr>)
            else cache w)"
  using func_upstream_raises [OF assms(1) assms(3)] assms(2) assms(4)
  by (simp add: miss_result func_frame)

theorem exception_caught_store_by_source_witness:
  "indicadores ''Ibovespa'' =
     Some \<lparr>codigo = PyStr ''^BVSP'', fonte = ''YF'', unidade = ''Pontos''\<rparr> \<and>
   \<not> cache_hit env_down ''Ibovespa'' (import_app env_down) \<and>
   upstream env_down ''Ibovespa''
     \<lparr>codigo = PyStr ''^BVSP'', fonte = ''YF'', unidade = ''Pontos''\<rparr> (import_app env_down) =
     Inl (ConnectionError ''unreachable'') \<and>
   isinstance_Exception (ConnectionError ''unreachable'') \<and>
   fst (baixar_dados env_down ''Ibovespa'' (import_app env_down)) = Inr pd_DataFrame \<and>
   cache (snd (baixar_dados env_down ''Ibovespa'' (import_app env_down))) =
     [''Ibovespa'' \<mapsto> \<lparr>data = pd_DataFrame, timestamp = clock10 1\<rparr>]"
  using exception_caught_store_by_source [of "''Ibovespa''"
      "\<lparr>codigo = PyStr ''^BVSP'', fonte = ''YF'', unidade = ''Pontos''\<rparr>"
      env_down "import_app env_down" "ConnectionError ''unreachable''"]
  by (simp add: registry_lookups env_down_upstream import_miss import_store_reading
      import_app_fields env_clocks)

section \<open>An empty answer is cached\<close>

text \<open>
  Claim C8: for a registered name, when the fetch is reached and the provider answers
  with an empty frame, the call returns an empty frame and the cache holds an entry for
  the name with that frame and the time read after the fetch; every later call for the
  name made while that entry is in the cache and less than 3600 seconds old returns the
  same empty frame and changes nothing but the count of clock readings: no request is sent.
\<close>

theorem empty_answer_cached:
  assumes "indicadores n = Some i" and "\<not> cache_hit e n w"
    and "upstream e n i w = Inr raw" and "empty raw"
  shows "\<exists>df. empty df \<and> fst (baixar_dados e n w) = Inr df \<and>
           cache (snd (baixar_dados e n w)) n =
             Some \<lparr>data = df, timestamp = clock e (store_reading n w)\<rparr> \<and>
           (\<forall>w2. cache w2 n = cache (snd (baixar_dados e n w)) n \<and>
                  clock e (reads w2) - clock e (store_reading n w) < CACHE_TIMEOUT \<longrightarrow>
                  baixar_dados e n w2 = (Inr df, w2\<lparr>reads := Suc (reads w2)\<rparr>))"
proof -
  from func_upstream_empty [OF assms(1) assms(3) assms(4)]
  obtain df where df: "empty df" "fst (baixar_dados_func e n w) = Inr df"
    by blast
  let ?ent = "\<lparr>data = df, timestamp = clock e (store_reading n w)\<rparr>"
  from df(2) assms(2) have res: "fst (baixar_dados e n w) = Inr df"
    and ent: "cache (snd (baixar_dados e n w)) n = Some ?ent"
    by (simp_all add: miss_result)
  have later: "baixar_dados e n w2 = (Inr df, w2\<lparr>reads := Suc (reads w2)\<rparr>)"
    if "cache w2 n = cache (snd (baixar_dados e n w)) n"
      and "clock e (reads w2) - clock e (store_reading n w) < CACHE_TIMEOUT" for w2
  proof -
    from that(1) ent have "cache w2 n = Some ?ent"
      by simp
    moreover from that(2) have "is_fresh ?ent (clock e (reads w2))"
      by (simp add: is_fresh_def)
    ultimately show ?thesis
      using wrapper_hit [of w2 n ?ent e] by simp
  qed
  from df(1) res ent later show ?thesis
    by blast
qed

theorem empty_answer_cached_witness:
  "indicadores ''Ibovespa'' =
     Some \<lparr>codigo = PyStr ''^BVSP'', fonte = ''YF'', unidade = ''Pontos''\<rparr> \<and>
   \<not> cache_hit env_empty ''Ibovespa'' (import_app env_empty) \<and>
   upstream env_empty ''Ibovespa''
     \<lparr>codigo = PyStr ''^BVSP'', fonte = ''YF'', unidade = ''Pontos''\<rparr> (import_app env_empty) =
     Inr pd_DataFrame \<and>
   empty pd_DataFrame \<and>
   fst (baixar_dados env_empty ''Ibovespa'' (import_app env_empty)) = Inr pd_DataFrame \<and>
   cache (snd (baixar_dados env_empty ''Ibovespa'' (import_app env_empty))) ''Ibovespa'' =
     Some \<lparr>data = pd_DataFrame, timestamp = clock10 1\<rparr> \<and>
   clock env_empty (reads (snd (baixar_dados env_empty ''Ibovespa'' (import_app env_empty)))) -
     clock env_empty (store_reading ''Ibovespa'' (import_app env_empty)) < CACHE_TIMEOUT \<and>
   baixar_dados env_empty ''Ibovespa''
       (snd (baixar_dados env_empty ''Ibovespa'' (import_app env_empty))) =
     (Inr pd_DataFrame,
      (snd (baixar_dados env_empty ''Ibovespa'' (import_app env_empty)))\<lparr>reads := 3\<rparr>)"
proof -
  let ?i = "\<lparr>codigo = PyStr ''^BVSP'', fonte = ''YF'', unidade = ''Pontos''\<rparr>"
  let ?w = "import_app env_empty"
  let ?w1 = "snd (baixar_dados env_empty ''Ibovespa'' ?w)"
  have emp: "empty pd_DataFrame"
    by (simp add: empty_def pd_DataFrame_def)
  have fn: "fst (baixar_dados_func env_empty ''Ibovespa'' ?w) = Inr pd_DataFrame"
    by (simp add: baixar_dados_func_def fetch_yfinance_data_def registry_lookups env_empty_def
        empty_def dropna_def pd_DataFrame_def Let_def)
  have res: "fst (baixar_dados env_empty ''Ibovespa'' ?w) = Inr pd_DataFrame"
    and rd: "reads ?w1 = 2"
    by (simp_all add: miss_result [OF import_miss] fn import_store_reading)
  have age: "clock env_empty (reads ?w1) - clock env_empty (store_reading ''Ibovespa'' ?w)
      < CACHE_TIMEOUT"
    by (simp add: rd import_store_reading env_clocks clock10_def CACHE_TIMEOUT_def)
  from empty_answer_cached [OF registry_lookups(3) import_miss env_empty_upstream emp]
  obtain df where df: "fst (baixar_dados env_empty ''Ibovespa'' ?w) = Inr df"
    "cache ?w1 ''Ibovespa'' =
       Some \<lparr>data = df, timestamp = clock env_empty (store_reading ''Ibovespa'' ?w)\<rparr>"
    "\<forall>w2. cache w2 ''Ibovespa'' = cache ?w1 ''Ibovespa'' \<and>
          clock env_empty (reads w2) - clock env_empty (store_reading ''Ibovespa'' ?w)
            < CACHE_TIMEOUT \<longrightarrow>
          baixar_dados env_empty ''Ibovespa'' w2 = (Inr df, w2\<lparr>reads := Suc (reads w2)\<rparr>)"
    by blast
  from df(1) res have [simp]: "df = pd_DataFrame"
    by simp
  from df(3) age have "baixar_dados env_empty ''Ibovespa'' ?w1 =
      (Inr df, ?w1\<lparr>reads := Suc (reads ?w1)\<rparr>)"
    by blast
  with df(2) res age show ?thesis
    by (simp add: registry_lookups import_miss env_empty_upstream emp rd
        import_store_reading env_clocks)
qed

section \<open>Normalization\<close>

text \<open>Removing elements keeps a list ordered.\<close>

lemma sorted_wrt_map_filter:
  "sorted_wrt P (map f xs) \<Longrightarrow> sorted_wrt P (map f (filter Q xs))"
  by (induction xs) auto

text \<open>
  Claim C7, as stated, asks that the frame returned is sorted ascending by date. The
  code only calls \<^verbatim>\<open>dropna\<close>, which keeps the rows in the order of the answer: when
  the central bank delivers the five observations newest first, the four rows returned
  are newest first.
\<close>

theorem normalization_not_sorted_counterexample:
  "fst (baixar_dados env_desc ''Taxa Selic'' (import_app env_desc)) =
     Inr \<lparr>columns = [PyStr ''Taxa Selic''],
          rows = [(19727, [Some 14]), (19726, [Some 13]), (19724, [Some 12]), (19723, [Some 11])]\<rparr> \<and>
   \<not> sorted [19727, 19726, 19724, 19723 :: int]"
proof -
  have "fst (baixar_dados_func env_desc ''Taxa Selic'' (import_app env_desc)) =
      Inr (dropna selic5_desc)"
    by (simp add: baixar_dados_func_def registry_lookups env_desc_def)
  then show ?thesis
    by (simp add: miss_result [OF import_miss] dropna_def selic5_desc_def)
qed

text \<open>
  What the fetch returns for an answer with rows: the raw rows whose values are all
  present, each reduced to its values, in the order of the answer.
\<close>

lemma func_rows:
  assumes "indicadores n = Some i" and "upstream e n i w = Inr raw"
    and "fonte i = ''YF'' \<Longrightarrow> \<not> empty raw \<and> PyStr ''Close'' \<in> set (columns raw)"
  shows "\<exists>df. fst (baixar_dados_func e n w) = Inr df \<and>
           rows df = map (\<lambda>r. (fst r, value_cells i raw (snd r)))
                       (filter (\<lambda>r. None \<notin> set (value_cells i raw (snd r))) (rows raw))"
proof (cases "fonte i = ''YF''")
  case True
  with assms show ?thesis
    by (simp add: baixar_dados_func_def fetch_yfinance_data_def upstream_def Let_def
        dropna_def select_columns_def rename_columns_def value_cells_def filter_map o_def)
next
  case False
  with assms(1,2) show ?thesis
    by (simp add: baixar_dados_func_def upstream_def Let_def dropna_def value_cells_def)
qed

lemma func_no_missing:
  "fst (baixar_dados_func e n w) = Inr df \<Longrightarrow> r \<in> set (rows df) \<Longrightarrow> None \<notin> set (snd r)"
  by (auto simp: baixar_dados_func_def dropna_def Let_def
      split: option.splits if_splits sum.splits prod.splits)

text \<open>
  Claim C7, amended: when \<^verbatim>\<open>baixar_dados\<close> fetches a registered indicator and the
  provider answers with a frame (for the market data source: one with rows and a
  \<^verbatim>\<open>'Close'\<close> column), the frame returned holds exactly the raw rows whose value is
  not missing, each reduced to its value, in the order of the raw rows: a row with a
  missing value is removed whole, and no value is filled in. So the frame returned has
  no missing value; its number of rows is the number of raw rows minus the number of
  rows with a missing value, four for five raw rows of which one has a missing value;
  and its dates are ascending when the dates of the raw rows are (the code does not
  sort). The value of a market data row is its \<^verbatim>\<open>'Close'\<close> cell: a row that misses only
  another column is kept.
\<close>

theorem normalization_drops_missing_keeps_order:
  assumes "indicadores n = Some i" and "\<not> cache_hit e n w"
    and "upstream e n i w = Inr raw"
    and "fonte i = ''YF'' \<longrightarrow> \<not> empty raw \<and> PyStr ''Close'' \<in> set (columns raw)"
  shows "\<exists>df. fst (baixar_dados e n w) = Inr df \<and>
           rows df = map (\<lambda>r. (fst r, value_cells i raw (snd r)))
                       (filter (\<lambda>r. None \<notin> set (value_cells i raw (snd r))) (rows raw)) \<and>
           (\<forall>r \<in> set (rows df). None \<notin> set (snd r)) \<and>
           length (rows df) +
             length (filter (\<lambda>r. None \<in> set (value_cells i raw (snd r))) (rows raw)) =
             length (rows raw) \<and>
           (length (rows raw) = 5 \<and>
            length (filter (\<lambda>r. None \<in> set (value_cells i raw (snd r))) (rows raw)) = 1 \<longrightarrow>
              length (rows df) = 4) \<and>
           (sorted (dates raw) \<longrightarrow> sorted (dates df)) \<and>
           (sorted_wrt (<) (dates raw) \<longrightarrow> sorted_wrt (<) (dates df))"
proof -
  let ?ok = "\<lambda>r :: int \<times> real option list. None \<notin> set (value_cells i raw (snd r))"
  let ?val = "\<lambda>r :: int \<times> real option list. (fst r, value_cells i raw (snd r))"
  from func_rows [OF assms(1) assms(3)] assms(4)
  obtain df where fn: "fst (baixar_dados_func e n w) = Inr df"
    and r: "rows df = map ?val (filter ?ok (rows raw))"
    by blast
  from fn assms(2) have res: "fst (baixar_dados e n w) = Inr df"
    by (simp add: miss_result)
  have nomiss: "\<forall>r \<in> set (rows df). None \<notin> set (snd r)"
    by (auto simp: r)
  have len: "length (rows df) + length (filter (\<lambda>r. \<not> ?ok r) (rows raw)) = length (rows raw)"
    using sum_length_filter_compl [of ?ok "rows raw"] by (simp add: r)
  have s1: "sorted (dates df)" if "sorted (dates raw)"
    using that sorted_wrt_map_filter [of "(\<le>)" fst "rows raw" ?ok]
    by (simp add: dates_def r o_def)
  have s2: "sorted_wrt (<) (dates df)" if "sorted_wrt (<) (dates raw)"
    using that sorted_wrt_map_filter [of "(<)" fst "rows raw" ?ok]
    by (simp add: dates_def r o_def)
  from len have five: "length (rows df) = 4"
    if "length (rows raw) = 5 \<and> length (filter (\<lambda>r. \<not> ?ok r) (rows raw)) = 1"
    using that by simp
  from res r nomiss len five s1 s2 show ?thesis
    by auto
qed

theorem normalization_drops_missing_keeps_order_witness:
  "indicadores ''Taxa Selic'' =
     Some \<lparr>codigo = PyInt 4189, fonte = ''BCB'', unidade = ''% ao ano''\<rparr> \<and>
   \<not> cache_hit env_ok ''Taxa Selic'' (import_app env_ok) \<and>
   upstream env_ok ''Taxa Selic''
     \<lparr>codigo = PyInt 4189, fonte = ''BCB'', unidade = ''% ao ano''\<rparr> (import_app env_ok) =
     Inr selic5 \<and>
   length (rows selic5) = 5 \<and>
   length (filter (\<lambda>r. None \<in> set (snd r)) (rows selic5)) = 1 \<and>
   sorted (dates selic5) \<and>
   (\<exists>df. fst (baixar_dados env_ok ''Taxa Selic'' (import_app env_ok)) = Inr df \<and>
      rows df = [(19723, [Some 11]), (19724, [Some 12]), (19726, [Some 13]), (19727, [Some 14])] \<and>
      length (rows df) = 4 \<and> sorted (dates df)) \<and>
   indicadores ''Ibovespa'' =
     Some \<lparr>codigo = PyStr ''^BVSP'', fonte = ''YF'', unidade = ''Pontos''\<rparr> \<and>
   \<not> cache_hit env_ok ''Ibovespa'' (import_app env_ok) \<and>
   upstream env_ok ''Ibovespa''
     \<lparr>codigo = PyStr ''^BVSP'', fonte = ''YF'', unidade = ''Pontos''\<rparr> (import_app env_ok) =
     Inr bvsp2 \<and>
   \<not> empty bvsp2 \<and> PyStr ''Close'' \<in> set (columns bvsp2) \<and>
   rows bvsp2 = [(19723, [Some 132000, Some 5]), (19724, [None, Some 7]),
                 (19725, [Some 133000, None])] \<and>
   (\<exists>df. fst (baixar_dados env_ok ''Ibovespa'' (import_app env_ok)) = Inr df \<and>
      rows df = [(19723, [Some 132000]), (19725, [Some 133000])])"
proof -
  let ?selic = "\<lparr>codigo = PyInt 4189, fonte = ''BCB'', unidade = ''% ao ano''\<rparr>"
  let ?bvsp = "\<lparr>codigo = PyStr ''^BVSP'', fonte = ''YF'', unidade = ''Pontos''\<rparr>"
  let ?w = "import_app env_ok"
  have i1: "indicadores ''Taxa Selic'' = Some ?selic"
    by (simp add: registry_lookups)
  have i2: "indicadores ''Ibovespa'' = Some ?bvsp"
    by (simp add: registry_lookups)
  have u1: "upstream env_ok ''Taxa Selic'' ?selic ?w = Inr selic5"
    by (simp add: upstream_def env_ok_def)
  have u2: "upstream env_ok ''Ibovespa'' ?bvsp ?w = Inr bvsp2"
    by (simp add: upstream_def env_ok_def)
  have p1: "fonte ?selic = ''YF'' \<longrightarrow> \<not> empty selic5 \<and> PyStr ''Close'' \<in> set (columns selic5)"
    by simp
  have ok2: "\<not> empty bvsp2 \<and> PyStr ''Close'' \<in> set (columns bvsp2)"
    by (simp add: empty_def bvsp2_def)
  then have p2: "fonte ?bvsp = ''YF'' \<longrightarrow> \<not> empty bvsp2 \<and> PyStr ''Close'' \<in> set (columns bvsp2)"
    by simp
  have raw1: "length (rows selic5) = 5 \<and>
      length (filter (\<lambda>r. None \<in> set (snd r)) (rows selic5)) = 1 \<and> sorted (dates selic5)"
    by (simp add: selic5_def dates_def)
  have raw2: "rows bvsp2 = [(19723, [Some 132000, Some 5]), (19724, [None, Some 7]),
                 (19725, [Some 133000, None])]"
    by (simp add: bvsp2_def)
  have v1: "value_cells ?selic selic5 = (\<lambda>cells. cells)"
    by (simp add: value_cells_def fun_eq_iff)
  have e1: "map (\<lambda>r. (fst r, snd r)) (filter (\<lambda>r. None \<notin> set (snd r)) (rows selic5)) =
      [(19723, [Some 11]), (19724, [Some 12]), (19726, [Some 13]), (19727, [Some 14])]"
    by (simp add: selic5_def)
  have vc: "value_cells ?bvsp bvsp2 [a, b] = [a]" for a b
    by (simp add: value_cells_def bvsp2_def)
  have e2: "map (\<lambda>r. (fst r, value_cells ?bvsp bvsp2 (snd r)))
        (filter (\<lambda>r. None \<notin> set (value_cells ?bvsp bvsp2 (snd r))) (rows bvsp2)) =
      [(19723, [Some 132000]), (19725, [Some 133000])]"
    by (simp add: raw2 vc)
  from normalization_drops_missing_keeps_order [OF i1 import_miss u1 p1]
  obtain df where "fst (baixar_dados env_ok ''Taxa Selic'' ?w) = Inr df"
    and "rows df = map (\<lambda>r. (fst r, snd r)) (filter (\<lambda>r. None \<notin> set (snd r)) (rows selic5))"
    and "length (rows selic5) = 5 \<and>
         length (filter (\<lambda>r. None \<in> set (snd r)) (rows selic5)) = 1 \<longrightarrow> length (rows df) = 4"
    and "sorted (dates selic5) \<longrightarrow> sorted (dates df)"
    unfolding v1 by blast
  with raw1 e1
  have t1: "\<exists>df. fst (baixar_dados env_ok ''Taxa Selic'' ?w) = Inr df \<and>
      rows df = [(19723, [Some 11]), (19724, [Some 12]), (19726, [Some 13]), (19727, [Some 14])] \<and>
      length (rows df) = 4 \<and> sorted (dates df)"
    by simp
  from normalization_drops_missing_keeps_order [OF i2 import_miss u2 p2]
  have t2: "\<exists>df. fst (baixar_dados env_ok ''Ibovespa'' ?w) = Inr df \<and>
      rows df = [(19723, [Some 132000]), (19725, [Some 133000])]"
    unfolding e2 by blast
  from i1 i2 u1 u2 ok2 raw1 raw2 t1 t2 import_miss [of env_ok] show ?thesis
    by blast
qed

section \<open>The dates of a request\<close>

text \<open>A call adds requests with the module's two dates only, and never changes \<^verbatim>\<open>end_date\<close>.\<close>

lemma call_requests:
  assumes "\<forall>r \<in> set (net w). request_start r = start_date \<and> request_end r = end_date w"
  shows "\<forall>r \<in> set (net (snd (baixar_dados e n w))).
           request_start r = start_date \<and> request_end r = end_date w"
  using assms
  by (auto simp: call_net request_of_def split: option.splits if_splits)

lemma session_end_date: "end_date (session e ns w) = end_date w"
  by (induction ns arbitrary: w) (simp_all add: call_end_date)

lemma session_requests:
  assumes "\<forall>r \<in> set (net w). request_start r = start_date \<and> request_end r = end_date w"
  shows "\<forall>r \<in> set (net (session e ns w)).
           request_start r = start_date \<and> request_end r = end_date w"
  using assms
proof (induction ns arbitrary: w)
  case Nil
  then show ?case by simp
next
  case (Cons n ns)
  let ?w1 = "snd (baixar_dados e n w)"
  have "\<forall>r \<in> set (net ?w1). request_start r = start_date \<and> request_end r = end_date ?w1"
    using call_requests [OF Cons.prems] by (simp add: call_end_date)
  from Cons.IH [OF this] show ?case
    by (simp add: call_end_date)
qed

text \<open>
  Claim C6: the start date of every fetch is \<^verbatim>\<open>'1994-07-01'\<close>, and the end date is
  the day after the day of the fetch. The code computes "tomorrow" with
  \<^verbatim>\<open>datetime.now() + timedelta(days=1)\<close>, but in a module-level assignment that runs
  once, when the module is loaded, so the fetches that the one-hour cache repeats for
  the life of the process all use the first day's value. Loaded on 2024-01-01, a call
  made a week later, on 2024-01-08, still asks for data up to 2024-01-02, while the day
  after that call is 2024-01-09.
\<close>

theorem end_date_stale_a_week_later:
  "net (snd (baixar_dados env_week ''Taxa Selic'' (import_app env_week))) =
     [SgsGet ''Taxa Selic'' (PyInt 4189) ''1994-07-01'' ''2024-01-02''] \<and>
   strftime_Y_m_d (\<lfloor>clock env_week 1\<rfloor> + utcoffset env_week + timedelta_days_1) = ''2024-01-09''"
proof -
  have "end_date (import_app env_week) = ''2024-01-02''"
    by (simp add: import_app_fields env_week_def tomorrow_of_2024_01_01)
  moreover have "strftime_Y_m_d (\<lfloor>clock env_week 1\<rfloor> + utcoffset env_week + timedelta_days_1)
      = ''2024-01-09''"
    by (simp add: env_week_def timedelta_days_1_def tomorrow_of_2024_01_08)
  ultimately show ?thesis
    by (simp add: call_net import_miss registry_lookups request_of_def start_date_def
        import_app_fields)
qed

text \<open>
  The extent of it: every request of a session, to either provider, carries the end date
  computed at load (and the start date \<^verbatim>\<open>'1994-07-01'\<close>).
\<close>

lemma session_request_dates:
  assumes "r \<in> set (net (session e ns (import_app e)))"
  shows "request_start r = ''1994-07-01'' \<and>
         request_end r = strftime_Y_m_d (\<lfloor>clock e 0\<rfloor> + utcoffset e + timedelta_days_1)"
proof -
  have "\<forall>r \<in> set (net (session e ns (import_app e))).
          request_start r = start_date \<and> request_end r = end_date (import_app e)"
    by (rule session_requests) (simp add: import_app_fields)
  with assms show ?thesis
    by (simp add: start_date_def import_app_fields timedelta_days_1_def)
qed

end
